theory Spec2Isabelle
  imports Complex_Main "HOL-Library.Product_Lexorder" "HOL-Library.Multiset"
begin

section \<open>Data model\<close>

text \<open>
  The recommendation routes and their helpers (the second half of
  \<^verbatim>\<open>src/server/routes/users.js\<close>) read three collections: products, orders, users.
  JavaScript numbers are modelled as exact rationals (IEEE rounding is not modelled), an
  ObjectId as a natural number, a document array as a list in the order the store returns it.
  Parameters that a helper never reads (\<^verbatim>\<open>userId\<close> of \<^verbatim>\<open>getUserPreferences\<close>,
  \<^verbatim>\<open>userPreferences\<close> of \<^verbatim>\<open>combineRecommendations\<close>) are left out.
\<close>

type_synonym objectId = nat

datatype product_status = active | inactive | out_of_stock | discontinued

record product =
  pid :: objectId
  category :: string
  brand :: string
  price :: rat
  tags :: "string list"
  averageRating :: rat
  sales :: rat
  status :: product_status

text \<open>
  A line item of a stored order. \<open>item_product\<close> is the reference \<^verbatim>\<open>orderItems.product\<close>;
  \<open>None\<close> is a line item whose reference is missing (a malformed document).
\<close>

record order_item =
  item_product :: "objectId option"
  item_price :: rat
  item_quantity :: rat

record order =
  order_user :: objectId
  orderItems :: "order_item list"
  isPaid :: bool

text \<open>
  The same after \<^verbatim>\<open>.populate('orderItems.product')\<close>: the reference is replaced by the
  product document, or by null (\<open>None\<close>) when no such product exists any more.
\<close>

record populated_item =
  pop_product :: "product option"
  pop_price :: rat
  pop_quantity :: rat

record populated_order =
  pop_orderItems :: "populated_item list"

text \<open>
  The user document after \<^verbatim>\<open>.populate('wishlist cart.product')\<close>. A populated array of
  references holds documents only; a populated field of a sub-document may be null. The two
  arrays may be absent (\<^verbatim>\<open>if (user.wishlist)\<close>, \<^verbatim>\<open>if (user.cart)\<close>).
\<close>

record cart_item =
  cart_product :: "product option"

record user_doc =
  wishlist :: "product list option"
  cart :: "cart_item list option"

text \<open>The value of \<^verbatim>\<open>Math.max\<close>: a number, or \<^verbatim>\<open>-Infinity\<close> for no arguments.\<close>

datatype jsnum = NegInfinity | Finite rat

record price_range =
  avg :: rat
  max_price :: jsnum

record preferences =
  categories :: "string list"
  brands :: "string list"
  priceRange :: price_range
  totalPurchases :: rat

section \<open>JavaScript objects used as weight tables\<close>

text \<open>
  \<^verbatim>\<open>categories\<close> and \<^verbatim>\<open>brands\<close> are plain objects from key to number: an association
  list with distinct keys, in insertion order. \<^verbatim>\<open>obj[k] || 0\<close> is \<open>weight_of\<close>,
  an assignment \<^verbatim>\<open>obj[k] = v\<close> overwrites the entry of \<open>k\<close> or creates it at the end. Keys are category and brand names;
  names that an object inherits from \<^verbatim>\<open>Object.prototype\<close> are not modelled.
\<close>

type_synonym weights = "(string \<times> rat) list"

definition or0 :: "rat option \<Rightarrow> rat" where
  "or0 x = (case x of None \<Rightarrow> 0 | Some v \<Rightarrow> if v = 0 then 0 else v)"

definition weight_of :: "weights \<Rightarrow> string \<Rightarrow> rat" where
  "weight_of obj k = or0 (map_of obj k)"

definition assign :: "string \<Rightarrow> rat \<Rightarrow> weights \<Rightarrow> weights" where
  "assign k v obj =
     (if k \<in> fst ` set obj
      then map (\<lambda>(k', v'). if k' = k then (k', v) else (k', v')) obj
      else obj @ [(k, v)])"

definition add_weight :: "string \<Rightarrow> rat \<Rightarrow> weights \<Rightarrow> weights" where
  "add_weight k w obj = assign k (weight_of obj k + w) obj"

text \<open>
  \<^verbatim>\<open>Object.keys\<close>: keys that are array indices (canonical decimal numerals below
  \<open>2^32 - 1\<close>) come first in ascending numeric order, then the other keys in insertion order.
\<close>

definition is_digit :: "char \<Rightarrow> bool" where
  "is_digit c = (c \<in> set ''0123456789'')"

definition digits_value :: "string \<Rightarrow> nat" where
  "digits_value s = foldl (\<lambda>n c. 10 * n + (of_char c - 48)) 0 s"

definition is_array_index :: "string \<Rightarrow> bool" where
  "is_array_index s =
     (s \<noteq> [] \<and> list_all is_digit s \<and> (length s = 1 \<or> hd s \<noteq> CHR ''0'')
      \<and> digits_value s < 2 ^ 32 - 1)"

definition Object_keys :: "weights \<Rightarrow> string list" where
  "Object_keys obj =
     sort_key digits_value (filter is_array_index (map fst obj))
     @ filter (\<lambda>k. \<not> is_array_index k) (map fst obj)"

text \<open>
  \<^verbatim>\<open>keys.sort((a, b) => obj[b] - obj[a])\<close>: \<^verbatim>\<open>Array.prototype.sort\<close> is stable, and
  \<open>a\<close> stays before \<open>b\<close> unless the weight of \<open>b\<close> is larger: a stable sort by descending
  weight.
\<close>

definition rank_keys :: "weights \<Rightarrow> string list" where
  "rank_keys obj = sort_key (\<lambda>k. - weight_of obj k) (Object_keys obj)"

section \<open>Preference Extractor: \<^verbatim>\<open>getUserPreferences\<close>\<close>

record pref_acc =
  acc_categories :: weights
  acc_brands :: weights
  totalSpent :: rat
  itemCount :: rat

definition acc0 :: pref_acc where
  "acc0 = \<lparr>acc_categories = [], acc_brands = [], totalSpent = 0, itemCount = 0\<rparr>"

text \<open>The body of \<^verbatim>\<open>order.orderItems.forEach\<close>, guarded by \<^verbatim>\<open>if (item.product)\<close>.\<close>

definition purchase_step :: "populated_item \<Rightarrow> pref_acc \<Rightarrow> pref_acc" where
  "purchase_step item acc =
     (case pop_product item of
        None \<Rightarrow> acc
      | Some p \<Rightarrow>
          \<lparr>acc_categories = add_weight (category p) (pop_quantity item) (acc_categories acc),
           acc_brands = add_weight (brand p) (pop_quantity item) (acc_brands acc),
           totalSpent = totalSpent acc + pop_price item * pop_quantity item,
           itemCount = itemCount acc + pop_quantity item\<rparr>)"

text \<open>The body of \<^verbatim>\<open>user.wishlist.forEach\<close>: no guard.\<close>

definition wishlist_step :: "product \<Rightarrow> pref_acc \<Rightarrow> pref_acc" where
  "wishlist_step p acc =
     acc\<lparr>acc_categories := add_weight (category p) (1 / 2) (acc_categories acc),
         acc_brands := add_weight (brand p) (1 / 2) (acc_brands acc)\<rparr>"

text \<open>The body of \<^verbatim>\<open>user.cart.forEach\<close>, guarded by \<^verbatim>\<open>if (cartItem.product)\<close>.\<close>

definition cart_step :: "cart_item \<Rightarrow> pref_acc \<Rightarrow> pref_acc" where
  "cart_step ci acc =
     (case cart_product ci of
        None \<Rightarrow> acc
      | Some p \<Rightarrow>
          acc\<lparr>acc_categories := add_weight (category p) (3 / 10) (acc_categories acc),
              acc_brands := add_weight (brand p) (3 / 10) (acc_brands acc)\<rparr>)"

definition wishlist_items :: "user_doc \<Rightarrow> product list" where
  "wishlist_items u = (case wishlist u of None \<Rightarrow> [] | Some ps \<Rightarrow> ps)"

definition cart_items :: "user_doc \<Rightarrow> cart_item list" where
  "cart_items u = (case cart u of None \<Rightarrow> [] | Some cs \<Rightarrow> cs)"

text \<open>The accumulators after the three loops, in the order the source runs them.\<close>

definition preference_weights :: "populated_order list \<Rightarrow> user_doc \<Rightarrow> pref_acc" where
  "preference_weights userOrders u =
     fold cart_step (cart_items u)
       (fold wishlist_step (wishlist_items u)
          (fold (\<lambda>ord. fold purchase_step (pop_orderItems ord)) userOrders acc0))"

fun Math_max :: "rat list \<Rightarrow> jsnum" where
  "Math_max [] = NegInfinity"
| "Math_max (x # xs) = Finite (fold max xs x)"

definition getUserPreferences :: "populated_order list \<Rightarrow> user_doc \<Rightarrow> preferences" where
  "getUserPreferences userOrders u =
     (let acc = preference_weights userOrders u in
      \<lparr>categories = rank_keys (acc_categories acc),
       brands = rank_keys (acc_brands acc),
       priceRange =
         \<lparr>avg = (if itemCount acc > 0 then totalSpent acc / itemCount acc else 0),
          max_price = Math_max (concat (map (\<lambda>ord. map pop_price (pop_orderItems ord)) userOrders))\<rparr>,
       totalPurchases = itemCount acc\<rparr>)"

section \<open>The store and its failures\<close>

text \<open>
  A request reads a snapshot of the collections. Every read is awaited and may reject
  (an upstream failure); \<open>rejects\<close> says which reads of the request do, by call site.
  Each call site runs at most once in a request. \<open>Types_ObjectId\<close> is the function
  \<^verbatim>\<open>mongoose.Types.ObjectId\<close> of the installed library, called without \<^verbatim>\<open>new\<close>: it
  gives an identifier or throws.
\<close>

datatype error = TypeError | MongoError

datatype call_site =
    Handler_orders | Handler_user
  | Collab_orders | Collab_similarUsers | Collab_recommended | Collab_products
  | Content_popular | Content_candidates
  | Seasonal_products

record user_record =
  user_id :: objectId
  wishlist_refs :: "objectId list option"
  cart_refs :: "objectId list option"

record store =
  Product_docs :: "product list"
  Order_docs :: "order list"
  User_docs :: "user_record list"
  rejects :: "call_site \<Rightarrow> error option"
  Types_ObjectId :: "objectId \<Rightarrow> error + objectId"

definition query :: "store \<Rightarrow> call_site \<Rightarrow> 'a \<Rightarrow> error + 'a" where
  "query db site result = (case rejects db site of Some e \<Rightarrow> Inl e | None \<Rightarrow> Inr result)"

text \<open>\<^verbatim>\<open>const v = await r; k(v)\<close>: a rejection leaves the enclosing function at once.\<close>

definition await :: "error + 'a \<Rightarrow> ('a \<Rightarrow> error + 'b) \<Rightarrow> error + 'b" where
  "await r k = (case r of Inl e \<Rightarrow> Inl e | Inr v \<Rightarrow> k v)"

text \<open>\<^verbatim>\<open>try { ... } catch (error) { console.error(...); return []; }\<close>\<close>

definition try_catch_empty :: "error + 'a list \<Rightarrow> error + 'a list" where
  "try_catch_empty body = (case body of Inl e \<Rightarrow> Inr [] | Inr v \<Rightarrow> Inr v)"

text \<open>
  \<^verbatim>\<open>xs.slice(0, n)\<close> for an integer \<open>n\<close>: a negative end counts from the end of the array.
\<close>

definition slice0 :: "int \<Rightarrow> 'a list \<Rightarrow> 'a list" where
  "slice0 n xs = (if n < 0 then take (length xs - nat (- n)) xs else take (nat n) xs)"

text \<open>
  \<^verbatim>\<open>.limit(n)\<close> of a find cursor: 0 is no limit, a negative limit is its absolute value.
  Where MongoDB leaves the order of equal sort keys open, the model keeps the order of the
  collection (a stable sort).
\<close>

definition cursor_limit :: "int \<Rightarrow> 'a list \<Rightarrow> 'a list" where
  "cursor_limit n xs = (if n = 0 then xs else take (nat \<bar>n\<bar>) xs)"

text \<open>\<^verbatim>\<open>.sort({ averageRating: -1, sales: -1 })\<close>\<close>

definition sort_rating_sales :: "product list \<Rightarrow> product list" where
  "sort_rating_sales ps = sort_key (\<lambda>p. (- averageRating p, - sales p)) ps"

section \<open>Recommendation items and \<^verbatim>\<open>Array.prototype.sort\<close>\<close>

text \<open>
  A result item is a product document, with \<^verbatim>\<open>recommendationScore\<close> and
  \<^verbatim>\<open>recommendationType\<close> when a scorer has attached them (\<open>None\<close>: the property is absent).
\<close>

record recommendation =
  rec_product :: product
  recommendationScore :: "rat option"
  recommendationType :: "string option"

definition plain :: "product \<Rightarrow> recommendation" where
  "plain p = \<lparr>rec_product = p, recommendationScore = None, recommendationType = None\<rparr>"

text \<open>
  The comparator \<^verbatim>\<open>(a, b) => b.recommendationScore - a.recommendationScore\<close>; \<open>None\<close> is
  NaN, the difference with an absent score.
\<close>

definition compare_scores :: "recommendation \<Rightarrow> recommendation \<Rightarrow> rat option" where
  "compare_scores a b =
     (case recommendationScore b of
        None \<Rightarrow> None
      | Some y \<Rightarrow> (case recommendationScore a of None \<Rightarrow> None | Some x \<Rightarrow> Some (y - x)))"

text \<open>
  \<^verbatim>\<open>xs.sort(cmp)\<close>: a stable sort, where \<open>a\<close> stays before \<open>b\<close> unless \<open>cmp a b > 0\<close>; a NaN
  from the comparator counts as 0. Modelled as insertion from the right. (For a comparator
  that is not a consistent order the standard only promises a permutation.)
\<close>

definition stays_before :: "('a \<Rightarrow> 'a \<Rightarrow> rat option) \<Rightarrow> 'a \<Rightarrow> 'a \<Rightarrow> bool" where
  "stays_before cmp a b = (case cmp a b of None \<Rightarrow> True | Some v \<Rightarrow> v \<le> 0)"

fun js_insort :: "('a \<Rightarrow> 'a \<Rightarrow> rat option) \<Rightarrow> 'a \<Rightarrow> 'a list \<Rightarrow> 'a list" where
  "js_insort cmp x [] = [x]"
| "js_insort cmp x (y # ys) =
     (if stays_before cmp x y then x # y # ys else y # js_insort cmp x ys)"

definition js_sort :: "('a \<Rightarrow> 'a \<Rightarrow> rat option) \<Rightarrow> 'a list \<Rightarrow> 'a list" where
  "js_sort cmp xs = foldr (js_insort cmp) xs []"

section \<open>Content Scorer: \<^verbatim>\<open>getContentBasedRecommendations\<close>\<close>

text \<open>\<^verbatim>\<open>xs.indexOf(x)\<close>: the first position of \<open>x\<close>, or -1.\<close>

fun indexOf :: "'a list \<Rightarrow> 'a \<Rightarrow> int" where
  "indexOf [] x = - 1"
| "indexOf (y # ys) x =
     (if y = x then 0 else (if indexOf ys x = - 1 then - 1 else indexOf ys x + 1))"

text \<open>
  The body of \<^verbatim>\<open>products.map(product => ...)\<close>. \<^verbatim>\<open>product.averageRating || 0\<close> is the
  rating itself for a number.
\<close>

definition content_score :: "string list \<Rightarrow> string list \<Rightarrow> price_range \<Rightarrow> product \<Rightarrow> rat" where
  "content_score categoryWeights brandWeights pr p =
     (let score0 = 0;
          categoryIndex = indexOf categoryWeights (category p);
          score1 = (if categoryIndex \<noteq> - 1 then score0 + (3 - of_int categoryIndex) * 3 else score0);
          brandIndex = indexOf brandWeights (brand p);
          score2 = (if brandIndex \<noteq> - 1 then score1 + (3 - of_int brandIndex) * 2 else score1);
          score3 = (if avg pr > 0
                    then score2 + max 0 (2 - \<bar>price p - avg pr\<bar> / avg pr)
                    else score2);
          score4 = score3 + averageRating p
      in score4 + min (sales p / 100) 2)"

definition content_body :: "store \<Rightarrow> preferences \<Rightarrow> int \<Rightarrow> error + recommendation list" where
  "content_body db userPreferences limit =
     (if length (categories userPreferences) = 0
      then await (query db Content_popular
                    (cursor_limit limit
                       (sort_rating_sales (filter (\<lambda>p. status p = active) (Product_docs db)))))
             (\<lambda>popular. Inr (map plain popular))
      else
        (let categoryWeights = take 3 (categories userPreferences);
             brandWeights = take 3 (brands userPreferences)
         in await (query db Content_candidates
                     (filter (\<lambda>p. status p = active
                                   \<and> (category p \<in> set categoryWeights \<or> brand p \<in> set brandWeights))
                        (Product_docs db)))
              (\<lambda>products.
                 (let scoredProducts =
                        map (\<lambda>p. \<lparr>rec_product = p,
                                   recommendationScore =
                                     Some (content_score categoryWeights brandWeights
                                             (priceRange userPreferences) p),
                                   recommendationType = Some ''content-based''\<rparr>) products
                  in Inr (slice0 limit (js_sort compare_scores scoredProducts))))))"

definition getContentBasedRecommendations ::
    "store \<Rightarrow> preferences \<Rightarrow> int \<Rightarrow> error + recommendation list" where
  "getContentBasedRecommendations db userPreferences limit =
     try_catch_empty (content_body db userPreferences limit)"

section \<open>Fusion and Ranker: \<^verbatim>\<open>combineRecommendations\<close>\<close>

text \<open>The reducer: push the item unless the accumulator holds one with the same \<^verbatim>\<open>_id\<close>.\<close>

definition dedupe_step :: "recommendation list \<Rightarrow> recommendation \<Rightarrow> recommendation list" where
  "dedupe_step acc r =
     (case find (\<lambda>p. pid (rec_product p) = pid (rec_product r)) acc of
        None \<Rightarrow> acc @ [r]
      | Some _ \<Rightarrow> acc)"

definition uniqueProducts :: "recommendation list \<Rightarrow> recommendation list" where
  "uniqueProducts combined = foldl dedupe_step [] combined"

definition combineRecommendations ::
    "recommendation list \<Rightarrow> recommendation list \<Rightarrow> int \<Rightarrow> recommendation list" where
  "combineRecommendations collaborative contentBased limit =
     slice0 limit (js_sort compare_scores (uniqueProducts (collaborative @ contentBased)))"

section \<open>Seasonal Scorer: \<^verbatim>\<open>getSeasonalRecommendations\<close>\<close>

definition seasonalTags :: "int \<Rightarrow> string list" where
  "seasonalTags currentMonth =
     (if currentMonth \<ge> 3 \<and> currentMonth \<le> 5 then [''spring'', ''outdoor'', ''garden'', ''fashion'']
      else if currentMonth \<ge> 6 \<and> currentMonth \<le> 8
        then [''summer'', ''outdoor'', ''sports'', ''vacation'', ''swimwear'']
      else if currentMonth \<ge> 9 \<and> currentMonth \<le> 11
        then [''fall'', ''autumn'', ''back-to-school'', ''warm'', ''cozy'']
      else [''winter'', ''holiday'', ''warm'', ''indoor'', ''gifts''])"

definition getSeasonalCategories :: "int \<Rightarrow> string list" where
  "getSeasonalCategories month =
     (if month \<ge> 3 \<and> month \<le> 5 then [''Home & Garden'', ''Sports & Outdoors'', ''Clothing & Fashion'']
      else if month \<ge> 6 \<and> month \<le> 8 then [''Sports & Outdoors'', ''Clothing & Fashion'', ''Electronics'']
      else if month \<ge> 9 \<and> month \<le> 11 then [''Clothing & Fashion'', ''Electronics'', ''Books & Media'']
      else [''Electronics'', ''Toys & Games'', ''Home & Garden''])"

text \<open>
  \<open>currentMonth\<close> is \<^verbatim>\<open>new Date().getMonth() + 1\<close>, taken as a parameter. The function has
  no try/catch: a rejected read rejects the call.
\<close>

definition getSeasonalRecommendations :: "store \<Rightarrow> int \<Rightarrow> int \<Rightarrow> error + product list" where
  "getSeasonalRecommendations db currentMonth limit =
     query db Seasonal_products
       (cursor_limit limit
          (sort_rating_sales
             (filter (\<lambda>p. status p = active
                          \<and> ((\<exists>t \<in> set (tags p). t \<in> set (seasonalTags currentMonth))
                             \<or> category p \<in> set (getSeasonalCategories currentMonth)))
                (Product_docs db))))"

section \<open>Collaborative Scorer: \<^verbatim>\<open>getCollaborativeRecommendations\<close>\<close>

text \<open>
  \<^verbatim>\<open>userOrders.flatMap(order => order.orderItems.map(item => item.product.toString()))\<close>:
  \<^verbatim>\<open>toString\<close> of a missing reference throws a TypeError.
\<close>

fun product_strings :: "order_item list \<Rightarrow> error + objectId list" where
  "product_strings [] = Inr []"
| "product_strings (item # items) =
     (case item_product item of
        None \<Rightarrow> Inl TypeError
      | Some p \<Rightarrow> await (product_strings items) (\<lambda>ps. Inr (p # ps)))"

fun flatMap_product_strings :: "order list \<Rightarrow> error + objectId list" where
  "flatMap_product_strings [] = Inr []"
| "flatMap_product_strings (ord # ords) =
     await (product_strings (orderItems ord))
       (\<lambda>ps. await (flatMap_product_strings ords) (\<lambda>rest. Inr (ps @ rest)))"

text \<open>
  The keys of a \<^verbatim>\<open>$group\<close> stage, in the order of their first document (MongoDB leaves
  the order of the groups open).
\<close>

definition first_seen :: "'a list \<Rightarrow> 'a list" where
  "first_seen xs = rev (remdups (rev xs))"

text \<open>\<^verbatim>\<open>userProductIds.map(id => mongoose.Types.ObjectId(id))\<close>\<close>

fun map_ObjectId :: "(objectId \<Rightarrow> error + objectId) \<Rightarrow> objectId list \<Rightarrow> error + objectId list" where
  "map_ObjectId ctor [] = Inr []"
| "map_ObjectId ctor (i # ids) =
     await (ctor i) (\<lambda>j. await (map_ObjectId ctor ids) (\<lambda>js. Inr (j # js)))"

text \<open>\<^verbatim>\<open>{ $in: ids }\<close> on one reference; a missing reference is in no list of ids.\<close>

definition ref_in :: "objectId option \<Rightarrow> objectId list \<Rightarrow> bool" where
  "ref_in r ids = (case r of None \<Rightarrow> False | Some p \<Rightarrow> p \<in> set ids)"

record similar_user =
  su_id :: objectId
  commonProducts :: "objectId option list list"
  su_count :: nat

text \<open>
  The first aggregation: \<^verbatim>\<open>$match\<close> paid orders with some line item among the ids,
  \<^verbatim>\<open>$group\<close> by user with \<^verbatim>\<open>count: { $sum: 1 }\<close> (one per matched order), drop the user
  itself, \<^verbatim>\<open>$sort\<close> by count descending, \<^verbatim>\<open>$limit: 20\<close>.
\<close>

definition similarUsers_pipeline :: "order list \<Rightarrow> objectId \<Rightarrow> objectId list \<Rightarrow> similar_user list" where
  "similarUsers_pipeline docs userId userProductIds =
     (let matched = filter (\<lambda>ord. isPaid ord
                              \<and> (\<exists>i \<in> set (orderItems ord). ref_in (item_product i) userProductIds)) docs;
          groups = map (\<lambda>u. \<lparr>su_id = u,
                              commonProducts =
                                first_seen (map (\<lambda>ord. map item_product (orderItems ord))
                                              (filter (\<lambda>ord. order_user ord = u) matched)),
                              su_count = length (filter (\<lambda>ord. order_user ord = u) matched)\<rparr>)
                       (first_seen (map order_user matched));
          others = filter (\<lambda>g. su_id g \<noteq> userId) groups
      in take 20 (sort_key (\<lambda>g. - int (su_count g)) others))"

record scored_product =
  sp_id :: "objectId option"
  score :: nat
  avgPrice :: rat

text \<open>
  The second aggregation: \<^verbatim>\<open>$match\<close> paid orders of the similar users with no line item
  among the ids (\<^verbatim>\<open>$nin\<close> on the array field), \<^verbatim>\<open>$unwind\<close> the line items, \<^verbatim>\<open>$group\<close>
  by product with \<^verbatim>\<open>score: { $sum: 1 }\<close> (one per line item) and the average price,
  \<^verbatim>\<open>$sort\<close> by score descending, \<^verbatim>\<open>$limit: limit\<close>.
\<close>

definition recommended_pipeline ::
    "order list \<Rightarrow> objectId list \<Rightarrow> objectId list \<Rightarrow> int \<Rightarrow> scored_product list" where
  "recommended_pipeline docs similarUserIds userProductIds limit =
     (let matched = filter (\<lambda>ord. order_user ord \<in> set similarUserIds \<and> isPaid ord
                              \<and> (\<forall>i \<in> set (orderItems ord). \<not> ref_in (item_product i) userProductIds)) docs;
          unwound = concat (map orderItems matched);
          groups = map (\<lambda>k. \<lparr>sp_id = k,
                              score = length (filter (\<lambda>i. item_product i = k) unwound),
                              avgPrice = sum_list (map item_price (filter (\<lambda>i. item_product i = k) unwound))
                                         / of_nat (length (filter (\<lambda>i. item_product i = k) unwound))\<rparr>)
                       (first_seen (map item_product unwound))
      in take (nat limit) (sort_key (\<lambda>g. - int (score g)) groups))"

text \<open>
  \<^verbatim>\<open>recommendedProducts.find(item => item._id.toString() === product._id.toString())\<close>:
  the callback throws on a group whose key is null, if the search reaches it.
\<close>

fun find_item :: "scored_product list \<Rightarrow> objectId \<Rightarrow> error + scored_product option" where
  "find_item [] p = Inr None"
| "find_item (item # items) p =
     (case sp_id item of
        None \<Rightarrow> Inl TypeError
      | Some i \<Rightarrow> if i = p then Inr (Some item) else find_item items p)"

text \<open>\<^verbatim>\<open>found?.score || 0\<close>\<close>

definition score_or0 :: "scored_product option \<Rightarrow> nat" where
  "score_or0 found = (case found of None \<Rightarrow> 0 | Some item \<Rightarrow> if score item = 0 then 0 else score item)"

fun annotate :: "scored_product list \<Rightarrow> product list \<Rightarrow> error + recommendation list" where
  "annotate recommendedProducts [] = Inr []"
| "annotate recommendedProducts (p # ps) =
     await (find_item recommendedProducts (pid p))
       (\<lambda>found. await (annotate recommendedProducts ps)
          (\<lambda>rest. Inr (\<lparr>rec_product = p,
                          recommendationScore = Some (of_nat (score_or0 found)),
                          recommendationType = Some ''collaborative''\<rparr> # rest)))"

text \<open>
  The arguments of each \<^verbatim>\<open>Order.aggregate\<close> call are evaluated before the call: first the
  identifiers for \<^verbatim>\<open>$in\<close> (or \<^verbatim>\<open>$nin\<close>), then the one for \<^verbatim>\<open>$ne\<close>. An aggregation
  whose \<^verbatim>\<open>$limit\<close> is not positive is rejected by the server.
\<close>

definition collaborative_body :: "store \<Rightarrow> objectId \<Rightarrow> int \<Rightarrow> error + recommendation list" where
  "collaborative_body db userId limit =
     await (query db Collab_orders (filter (\<lambda>ord. order_user ord = userId \<and> isPaid ord) (Order_docs db)))
       (\<lambda>userOrders.
     await (flatMap_product_strings userOrders)
       (\<lambda>userProductIds.
     if length userProductIds = 0 then Inr []
     else
     await (map_ObjectId (Types_ObjectId db) userProductIds)
       (\<lambda>inIds.
     await (Types_ObjectId db userId)
       (\<lambda>selfId.
     await (query db Collab_similarUsers (similarUsers_pipeline (Order_docs db) selfId inIds))
       (\<lambda>similarUsers.
     await (map_ObjectId (Types_ObjectId db) userProductIds)
       (\<lambda>ninIds.
     await (if limit \<le> 0 then Inl MongoError
            else query db Collab_recommended
                   (recommended_pipeline (Order_docs db) (map su_id similarUsers) ninIds limit))
       (\<lambda>recommendedProducts.
     await (query db Collab_products
              (filter (\<lambda>p. Some (pid p) \<in> set (map sp_id recommendedProducts) \<and> status p = active)
                 (Product_docs db)))
       (\<lambda>products. annotate recommendedProducts products))))))))"

definition getCollaborativeRecommendations ::
    "store \<Rightarrow> objectId \<Rightarrow> int \<Rightarrow> error + recommendation list" where
  "getCollaborativeRecommendations db userId limit =
     try_catch_empty (collaborative_body db userId limit)"

section \<open>The request handler \<^verbatim>\<open>GET /personalized\<close>\<close>







section \<open>The specification's reading of the preference signals\<close>









section \<open>The specification's reading of the rankings and the content score\<close>

text \<open>Rating descending, then sales descending.\<close>

definition ranked_before :: "product \<Rightarrow> product \<Rightarrow> bool" where
  "ranked_before p q =
     (averageRating q < averageRating p \<or> (averageRating q = averageRating p \<and> sales q \<le> sales p))"

text \<open>The July row of the seasonal table.\<close>

definition july_tags :: "string set" where
  "july_tags = {''summer'', ''outdoor'', ''sports'', ''vacation'', ''swimwear''}"

definition july_categories :: "string set" where
  "july_categories = {''Sports & Outdoors'', ''Clothing & Fashion'', ''Electronics''}"

definition july_match :: "product \<Rightarrow> bool" where
  "july_match p =
     (status p = active \<and> (set (tags p) \<inter> july_tags \<noteq> {} \<or> category p \<in> july_categories))"








section \<open>The specification's reading of the purchase history\<close>

definition paid_orders_of :: "store \<Rightarrow> objectId \<Rightarrow> order list" where
  "paid_orders_of db u = filter (\<lambda>ord. order_user ord = u \<and> isPaid ord) (Order_docs db)"

text \<open>The product identifiers a user has purchased (paid orders only).\<close>

definition purchased_ids :: "store \<Rightarrow> objectId \<Rightarrow> objectId list" where
  "purchased_ids db u = List.map_filter item_product (concat (map orderItems (paid_orders_of db u)))"


















section \<open>Example data\<close>

definition phone :: product where
  "phone = \<lparr>pid = 1, category = ''Electronics'', brand = ''Acme'', price = 1000,
            tags = [''gadget''], averageRating = 24 / 5, sales = 234, status = active\<rparr>"

definition tent :: product where
  "tent = \<lparr>pid = 2, category = ''Sports & Outdoors'', brand = ''Trail'', price = 120,
           tags = [''outdoor'', ''camping''], averageRating = 4, sales = 50, status = active\<rparr>"

definition novel :: product where
  "novel = \<lparr>pid = 3, category = ''Books & Media'', brand = ''Acme'', price = 15,
            tags = [''summer''], averageRating = 9 / 2, sales = 1000, status = active\<rparr>"

definition kettle :: product where
  "kettle = \<lparr>pid = 4, category = ''Home & Garden'', brand = ''Boil'', price = 30,
             tags = [''kitchen''], averageRating = 5, sales = 10, status = active\<rparr>"

definition scarf :: product where
  "scarf = \<lparr>pid = 5, category = ''Clothing & Fashion'', brand = ''Wool'', price = 25,
            tags = [''winter''], averageRating = 3, sales = 5, status = inactive\<rparr>"

definition catalog :: "product list" where
  "catalog = [phone, tent, novel, kettle, scarf]"

definition reachable :: "product list \<Rightarrow> store" where
  "reachable docs = \<lparr>Product_docs = docs, Order_docs = [], User_docs = [],
                     rejects = (\<lambda>site. None), Types_ObjectId = Inr\<rparr>"



definition no_basket :: user_doc where
  "no_basket = \<lparr>wishlist = Some [], cart = Some []\<rparr>"


definition cold_preferences :: preferences where
  "cold_preferences =
     \<lparr>categories = [], brands = [], priceRange = \<lparr>avg = 0, max_price = NegInfinity\<rparr>,
      totalPurchases = 0\<rparr>"

text \<open>Two scorer outputs that share the novel, with different scores.\<close>

definition collaborative_example :: "recommendation list" where
  "collaborative_example =
     [\<lparr>rec_product = tent, recommendationScore = Some 3, recommendationType = Some ''collaborative''\<rparr>,
      \<lparr>rec_product = novel, recommendationScore = Some 1, recommendationType = Some ''collaborative''\<rparr>]"

definition content_example :: "recommendation list" where
  "content_example =
     [\<lparr>rec_product = novel, recommendationScore = Some (17 / 2), recommendationType = Some ''content-based''\<rparr>,
      \<lparr>rec_product = phone, recommendationScore = Some 12, recommendationType = Some ''content-based''\<rparr>,
      \<lparr>rec_product = kettle, recommendationScore = Some 5, recommendationType = Some ''content-based''\<rparr>]"

section \<open>An example shop\<close>

definition line :: "product \<Rightarrow> order_item" where
  "line p = \<lparr>item_product = Some (pid p), item_price = price p, item_quantity = 1\<rparr>"

text \<open>
  User 1 bought a phone. Users 2 and 3 bought a phone too, user 2 together with a tent;
  in other orders user 2 bought a novel twice (two line items) and a scarf, user 3 a kettle
  and a novel. User 1 has an unpaid order; user 4 shares nothing with user 1; user 5 has no
  paid order.
\<close>

definition shop_orders :: "order list" where
  "shop_orders =
     [\<lparr>order_user = 1, orderItems = [line phone], isPaid = True\<rparr>,
      \<lparr>order_user = 2, orderItems = [line phone, line tent], isPaid = True\<rparr>,
      \<lparr>order_user = 2, orderItems = [line novel, line novel, line scarf], isPaid = True\<rparr>,
      \<lparr>order_user = 3, orderItems = [line phone], isPaid = True\<rparr>,
      \<lparr>order_user = 3, orderItems = [line kettle, line novel], isPaid = True\<rparr>,
      \<lparr>order_user = 1, orderItems = [line kettle], isPaid = False\<rparr>,
      \<lparr>order_user = 4, orderItems = [line kettle], isPaid = True\<rparr>,
      \<lparr>order_user = 5, orderItems = [line tent], isPaid = False\<rparr>]"

definition shop_users :: "user_record list" where
  "shop_users =
     [\<lparr>user_id = 1, wishlist_refs = Some [2], cart_refs = Some [3, 99]\<rparr>,
      \<lparr>user_id = 5, wishlist_refs = Some [], cart_refs = Some []\<rparr>]"

definition shop :: store where
  "shop = \<lparr>Product_docs = catalog, Order_docs = shop_orders, User_docs = shop_users,
           rejects = (\<lambda>site. None), Types_ObjectId = Inr\<rparr>"






section \<open>Properties of the helpers\<close>

subsection \<open>Weight tables\<close>

lemma or0_Some [simp]: "or0 (Some v) = v" and or0_None [simp]: "or0 None = 0"
  by (simp_all add: or0_def)














subsection \<open>The three loops of the Preference Extractor\<close>





subsection \<open>The preference snapshot\<close>










text \<open>
  C5. With no paid orders the maximum price is \<^verbatim>\<open>Math.max()\<close> of no arguments, that is
  \<^verbatim>\<open>-Infinity\<close>: the source has no guard for the empty case.
\<close>

theorem getUserPreferences_no_orders_max:
  "max_price (priceRange (getUserPreferences [] u)) = NegInfinity"
  by (simp add: getUserPreferences_def Let_def)

subsection \<open>Slices, limits and the comparator sort\<close>


lemma slice0_prefix: "\<exists>k. slice0 n xs = take k xs"
  by (auto simp: slice0_def)

lemma set_slice0: "set (slice0 n xs) \<subseteq> set xs"
  by (auto simp: slice0_def dest: in_set_takeD)

lemma length_slice0: "0 \<le> n \<Longrightarrow> int (length (slice0 n xs)) \<le> n"
  by (simp add: slice0_def)

lemma distinct_map_slice0: "distinct (map f xs) \<Longrightarrow> distinct (map f (slice0 n xs))"
  by (simp add: slice0_def take_map[symmetric])

lemma sorted_wrt_take: "sorted_wrt R xs \<Longrightarrow> sorted_wrt R (take k xs)"
  by (metis append_take_drop_id sorted_wrt_append)

lemma sorted_wrt_slice0: "sorted_wrt R xs \<Longrightarrow> sorted_wrt R (slice0 n xs)"
  by (simp add: slice0_def sorted_wrt_take)

lemma mset_js_insort: "mset (js_insort cmp x ys) = add_mset x (mset ys)"
  by (induction ys) auto

lemma mset_js_sort: "mset (js_sort cmp xs) = mset xs"
  by (induction xs) (auto simp: js_sort_def mset_js_insort)

lemma set_js_sort: "set (js_sort cmp xs) = set xs"
  by (metis mset_js_sort set_mset_mset)

lemma length_js_sort: "length (js_sort cmp xs) = length xs"
  by (metis mset_js_sort size_mset)

lemma distinct_map_js_sort: "distinct (map f (js_sort cmp xs)) = distinct (map f xs)"
proof -
  have "mset (map f (js_sort cmp xs)) = mset (map f xs)"
    by (simp add: mset_js_sort)
  then show ?thesis by (metis mset_eq_imp_distinct_iff)
qed

text \<open>Descending order of scores, for items that carry one.\<close>

lemma stays_before_scores:
  "recommendationScore a = Some x \<Longrightarrow> recommendationScore b = Some y \<Longrightarrow>
   stays_before compare_scores a b = (y \<le> x)"
  by (simp add: stays_before_def compare_scores_def)

lemma sorted_js_insort:
  assumes "\<forall>r \<in> set (x # ys). recommendationScore r \<noteq> None"
    and "sorted_wrt (\<lambda>a b. the (recommendationScore b) \<le> the (recommendationScore a)) ys"
  shows "sorted_wrt (\<lambda>a b. the (recommendationScore b) \<le> the (recommendationScore a))
           (js_insort compare_scores x ys)"
  using assms
proof (induction ys)
  case Nil
  then show ?case by simp
next
  case (Cons y ys)
  from Cons.prems(1) obtain sx sy where sx: "recommendationScore x = Some sx"
    and sy: "recommendationScore y = Some sy" by auto
  show ?case
  proof (cases "stays_before compare_scores x y")
    case True
    then have "sy \<le> sx" using stays_before_scores[OF sx sy] by simp
    with Cons.prems(2) True sx sy show ?thesis by (auto intro: order_trans)
  next
    case False
    then have le: "sx \<le> sy" using stays_before_scores[OF sx sy] by simp
    have ih: "sorted_wrt (\<lambda>a b. the (recommendationScore b) \<le> the (recommendationScore a))
           (js_insort compare_scores x ys)"
      using Cons.IH Cons.prems by simp
    have "set (js_insort compare_scores x ys) = insert x (set ys)"
      by (metis mset_js_insort set_mset_add_mset_insert set_mset_mset)
    with ih le Cons.prems(2) False sx sy show ?thesis by auto
  qed
qed

lemma sorted_js_sort:
  "\<forall>r \<in> set xs. recommendationScore r \<noteq> None \<Longrightarrow>
   sorted_wrt (\<lambda>a b. the (recommendationScore b) \<le> the (recommendationScore a))
     (js_sort compare_scores xs)"
proof (induction xs)
  case Nil
  then show ?case by (simp add: js_sort_def)
next
  case (Cons x xs)
  have "sorted_wrt (\<lambda>a b. the (recommendationScore b) \<le> the (recommendationScore a))
          (js_insort compare_scores x (js_sort compare_scores xs))"
    by (rule sorted_js_insort) (use Cons in \<open>auto simp: set_js_sort\<close>)
  then show ?case by (simp add: js_sort_def)
qed

subsection \<open>Deduplication keeps first occurrences\<close>

lemma uniqueProducts_snoc:
  "uniqueProducts (xs @ [x]) = dedupe_step (uniqueProducts xs) x"
  by (simp add: uniqueProducts_def)

lemma find_append_if:
  "find P (xs @ ys) = (case find P xs of None \<Rightarrow> find P ys | Some x \<Rightarrow> Some x)"
  by (induction xs) auto

lemma uniqueProducts_invariant:
  "distinct (map (\<lambda>r. pid (rec_product r)) (uniqueProducts xs))
   \<and> (\<lambda>r. pid (rec_product r)) ` set (uniqueProducts xs) = (\<lambda>r. pid (rec_product r)) ` set xs
   \<and> (\<forall>r \<in> set (uniqueProducts xs).
        find (\<lambda>p. pid (rec_product p) = pid (rec_product r)) xs = Some r)"
proof (induction xs rule: rev_induct)
  case Nil
  then show ?case by (simp add: uniqueProducts_def)
next
  case (snoc x xs)
  let ?U = "uniqueProducts xs"
  let ?same = "\<lambda>r p. pid (rec_product p) = pid (rec_product r)"
  show ?case
  proof (cases "find (?same x) ?U")
    case None
    then have "pid (rec_product x) \<notin> (\<lambda>r. pid (rec_product r)) ` set ?U"
      by (auto simp: find_None_iff)
    then have fresh: "pid (rec_product x) \<notin> (\<lambda>r. pid (rec_product r)) ` set xs"
      using snoc.IH by simp
    then have nx: "find (?same x) xs = None"
      by (force simp: find_None_iff image_iff)
    have U': "uniqueProducts (xs @ [x]) = ?U @ [x]"
      using None by (simp add: uniqueProducts_snoc dedupe_step_def)
    have "distinct (map (\<lambda>r. pid (rec_product r)) (?U @ [x]))"
      using snoc.IH fresh by auto
    moreover have "(\<lambda>r. pid (rec_product r)) ` set (?U @ [x]) = (\<lambda>r. pid (rec_product r)) ` set (xs @ [x])"
      using snoc.IH by auto
    moreover have "\<forall>r \<in> set (?U @ [x]). find (?same r) (xs @ [x]) = Some r"
      using snoc.IH nx by (auto simp: find_append_if)
    ultimately show ?thesis by (simp only: U') 
  next
    case (Some y)
    then have U': "uniqueProducts (xs @ [x]) = ?U"
      by (simp add: uniqueProducts_snoc dedupe_step_def)
    from Some have "pid (rec_product x) \<in> (\<lambda>r. pid (rec_product r)) ` set ?U"
      by (auto simp: find_Some_iff image_iff) (metis nth_mem)
    then have "(\<lambda>r. pid (rec_product r)) ` set ?U = (\<lambda>r. pid (rec_product r)) ` set (xs @ [x])"
      using snoc.IH by auto
    moreover have "\<forall>r \<in> set ?U. find (?same r) (xs @ [x]) = Some r"
      using snoc.IH by (auto simp: find_append_if)
    ultimately show ?thesis using snoc.IH by (simp only: U') 
  qed
qed

lemma find_SomeD: "find P xs = Some x \<Longrightarrow> x \<in> set xs \<and> P x"
  by (induction xs) (auto split: if_splits)

text \<open>
  C3. For all input lists and every limit: the output has at most \<open>n\<close> items (for a limit
  that is not negative), no product identity twice, only items of the inputs, and each
  output item is the first occurrence of its product in collaborative-then-content order,
  so a product of the collaborative list keeps the collaborative item and its score. The
  output is a prefix of the deduplicated items (every product of the inputs once) in
  descending order of score; the order is stated for items that all carry a score.
\<close>

theorem combineRecommendations_fusion:
  "(0 \<le> n \<longrightarrow> int (length (combineRecommendations collaborative contentBased n)) \<le> n)
   \<and> distinct (map (\<lambda>r. pid (rec_product r)) (combineRecommendations collaborative contentBased n))
   \<and> set (combineRecommendations collaborative contentBased n) \<subseteq> set collaborative \<union> set contentBased
   \<and> (\<forall>r \<in> set (combineRecommendations collaborative contentBased n).
         find (\<lambda>p. pid (rec_product p) = pid (rec_product r)) (collaborative @ contentBased) = Some r)
   \<and> (\<forall>r \<in> set (combineRecommendations collaborative contentBased n).
         pid (rec_product r) \<in> (\<lambda>p. pid (rec_product p)) ` set collaborative \<longrightarrow>
         find (\<lambda>p. pid (rec_product p) = pid (rec_product r)) collaborative = Some r)
   \<and> ((\<forall>r \<in> set (collaborative @ contentBased). recommendationScore r \<noteq> None) \<longrightarrow>
        sorted_wrt (\<lambda>a b. the (recommendationScore b) \<le> the (recommendationScore a))
          (combineRecommendations collaborative contentBased n))
   \<and> (\<exists>ranked. combineRecommendations collaborative contentBased n = slice0 n ranked
         \<and> distinct (map (\<lambda>r. pid (rec_product r)) ranked)
         \<and> (\<lambda>r. pid (rec_product r)) ` set ranked
             = (\<lambda>r. pid (rec_product r)) ` (set collaborative \<union> set contentBased)
         \<and> ((\<forall>r \<in> set (collaborative @ contentBased). recommendationScore r \<noteq> None) \<longrightarrow>
              sorted_wrt (\<lambda>a b. the (recommendationScore b) \<le> the (recommendationScore a)) ranked))"
proof -
  let ?ident = "\<lambda>r. pid (rec_product r)"
  let ?desc = "\<lambda>a b. the (recommendationScore b) \<le> the (recommendationScore a)"
  let ?combined = "collaborative @ contentBased"
  let ?U = "uniqueProducts ?combined"
  let ?ranked = "js_sort compare_scores ?U"
  let ?out = "combineRecommendations collaborative contentBased n"
  have out: "?out = slice0 n ?ranked"
    by (simp add: combineRecommendations_def)
  note inv = uniqueProducts_invariant[of ?combined]
  have d_ranked: "distinct (map ?ident ?ranked)"
    using inv by (simp add: distinct_map_js_sort)
  have ids_ranked: "?ident ` set ?ranked = ?ident ` (set collaborative \<union> set contentBased)"
    using inv by (simp add: set_js_sort)
  have first: "\<forall>r \<in> set ?ranked. find (\<lambda>p. ?ident p = ?ident r) ?combined = Some r"
    using inv by (simp add: set_js_sort)
  have sub: "set ?out \<subseteq> set ?ranked"
    unfolding out by (rule set_slice0)
  have sorted_ranked: "sorted_wrt ?desc ?ranked"
    if scored: "\<forall>r \<in> set ?combined. recommendationScore r \<noteq> None"
  proof (rule sorted_js_sort)
    show "\<forall>r \<in> set ?U. recommendationScore r \<noteq> None"
    proof
      fix r assume "r \<in> set ?U"
      with inv have "find (\<lambda>p. ?ident p = ?ident r) ?combined = Some r" by simp
      then have "r \<in> set ?combined" by (blast dest: find_SomeD)
      with scored show "recommendationScore r \<noteq> None" by blast
    qed
  qed
  have c1: "0 \<le> n \<longrightarrow> int (length ?out) \<le> n"
    unfolding out by (simp add: length_slice0)
  have c2: "distinct (map ?ident ?out)"
    unfolding out using d_ranked by (rule distinct_map_slice0)
  have c4: "\<forall>r \<in> set ?out. find (\<lambda>p. ?ident p = ?ident r) ?combined = Some r"
    using first sub by blast
  have c3: "set ?out \<subseteq> set collaborative \<union> set contentBased"
  proof
    fix r assume "r \<in> set ?out"
    with c4 have "find (\<lambda>p. ?ident p = ?ident r) ?combined = Some r" by blast
    then have "r \<in> set ?combined" by (blast dest: find_SomeD)
    then show "r \<in> set collaborative \<union> set contentBased" by simp
  qed
  have c5: "\<forall>r \<in> set ?out. ?ident r \<in> ?ident ` set collaborative \<longrightarrow>
         find (\<lambda>p. ?ident p = ?ident r) collaborative = Some r"
  proof (intro ballI impI)
    fix r assume r: "r \<in> set ?out" and "?ident r \<in> ?ident ` set collaborative"
    then obtain c where "c \<in> set collaborative" "?ident c = ?ident r" by force
    then have "find (\<lambda>p. ?ident p = ?ident r) collaborative \<noteq> None"
      by (auto simp: find_None_iff)
    then obtain y where y: "find (\<lambda>p. ?ident p = ?ident r) collaborative = Some y" by blast
    from c4 r have "find (\<lambda>p. ?ident p = ?ident r) ?combined = Some r" by blast
    with y show "find (\<lambda>p. ?ident p = ?ident r) collaborative = Some r"
      by (simp add: find_append_if)
  qed
  have c6: "(\<forall>r \<in> set ?combined. recommendationScore r \<noteq> None) \<longrightarrow> sorted_wrt ?desc ?out"
    unfolding out using sorted_ranked by (blast intro: sorted_wrt_slice0)
  have c7: "\<exists>ranked. ?out = slice0 n ranked \<and> distinct (map ?ident ranked)
         \<and> ?ident ` set ranked = ?ident ` (set collaborative \<union> set contentBased)
         \<and> ((\<forall>r \<in> set ?combined. recommendationScore r \<noteq> None) \<longrightarrow> sorted_wrt ?desc ranked)"
    using out d_ranked ids_ranked sorted_ranked by blast
  from c1 c2 c3 c4 c5 c6 c7 show ?thesis by blast
qed

text \<open>An instance: two lists that share the novel; the collaborative item and its score 1 are kept.\<close>

theorem combineRecommendations_fusion_witness:
  "combineRecommendations collaborative_example content_example 3
     = [\<lparr>rec_product = phone, recommendationScore = Some 12, recommendationType = Some ''content-based''\<rparr>,
        \<lparr>rec_product = kettle, recommendationScore = Some 5, recommendationType = Some ''content-based''\<rparr>,
        \<lparr>rec_product = tent, recommendationScore = Some 3, recommendationType = Some ''collaborative''\<rparr>]
   \<and> combineRecommendations collaborative_example content_example 4
     = [\<lparr>rec_product = phone, recommendationScore = Some 12, recommendationType = Some ''content-based''\<rparr>,
        \<lparr>rec_product = kettle, recommendationScore = Some 5, recommendationType = Some ''content-based''\<rparr>,
        \<lparr>rec_product = tent, recommendationScore = Some 3, recommendationType = Some ''collaborative''\<rparr>,
        \<lparr>rec_product = novel, recommendationScore = Some 1, recommendationType = Some ''collaborative''\<rparr>]
   \<and> list_all (\<lambda>r. recommendationScore r \<noteq> None) (collaborative_example @ content_example)
   \<and> int (length (combineRecommendations collaborative_example content_example 3)) \<le> 3
   \<and> sorted_wrt (\<lambda>a b. the (recommendationScore b) \<le> the (recommendationScore a))
        (combineRecommendations collaborative_example content_example 3)
   \<and> list_all (\<lambda>r. find (\<lambda>p. pid (rec_product p) = pid (rec_product r)) collaborative_example = Some r)
        (filter (\<lambda>r. pid (rec_product r) \<in> (\<lambda>p. pid (rec_product p)) ` set collaborative_example)
           (combineRecommendations collaborative_example content_example 4))"
proof -
  have e3: "combineRecommendations collaborative_example content_example 3
     = [\<lparr>rec_product = phone, recommendationScore = Some 12, recommendationType = Some ''content-based''\<rparr>,
        \<lparr>rec_product = kettle, recommendationScore = Some 5, recommendationType = Some ''content-based''\<rparr>,
        \<lparr>rec_product = tent, recommendationScore = Some 3, recommendationType = Some ''collaborative''\<rparr>]"
    by code_simp
  have e4: "combineRecommendations collaborative_example content_example 4
     = [\<lparr>rec_product = phone, recommendationScore = Some 12, recommendationType = Some ''content-based''\<rparr>,
        \<lparr>rec_product = kettle, recommendationScore = Some 5, recommendationType = Some ''content-based''\<rparr>,
        \<lparr>rec_product = tent, recommendationScore = Some 3, recommendationType = Some ''collaborative''\<rparr>,
        \<lparr>rec_product = novel, recommendationScore = Some 1, recommendationType = Some ''collaborative''\<rparr>]"
    by code_simp
  have sc: "list_all (\<lambda>r. recommendationScore r \<noteq> None) (collaborative_example @ content_example)"
    by code_simp
  then have scored: "\<forall>r \<in> set (collaborative_example @ content_example). recommendationScore r \<noteq> None"
    by (simp only: list_all_iff)
  have n3: "(0::int) \<le> 3" by simp
  note t3 = combineRecommendations_fusion[of 3 collaborative_example content_example]
  note t4 = combineRecommendations_fusion[of 4 collaborative_example content_example]
  from t3 n3 have len: "int (length (combineRecommendations collaborative_example content_example 3)) \<le> 3"
    by blast
  from t3 scored have srt: "sorted_wrt (\<lambda>a b. the (recommendationScore b) \<le> the (recommendationScore a))
        (combineRecommendations collaborative_example content_example 3)"
    by blast
  from t4 have "\<forall>r \<in> set (combineRecommendations collaborative_example content_example 4).
         pid (rec_product r) \<in> (\<lambda>p. pid (rec_product p)) ` set collaborative_example \<longrightarrow>
         find (\<lambda>p. pid (rec_product p) = pid (rec_product r)) collaborative_example = Some r"
    by blast
  then have fst: "list_all (\<lambda>r. find (\<lambda>p. pid (rec_product p) = pid (rec_product r)) collaborative_example = Some r)
        (filter (\<lambda>r. pid (rec_product r) \<in> (\<lambda>p. pid (rec_product p)) ` set collaborative_example)
           (combineRecommendations collaborative_example content_example 4))"
    by (simp add: list_all_iff)
  from e3 e4 sc len srt fst show ?thesis by blast
qed

subsection \<open>Find cursors\<close>

lemma cursor_limit_pos: "0 < n \<Longrightarrow> cursor_limit n xs = take (nat n) xs"
  by (simp add: cursor_limit_def)

lemma set_cursor_limit: "set (cursor_limit n xs) \<subseteq> set xs"
  by (auto simp: cursor_limit_def dest: in_set_takeD)

lemma sorted_wrt_cursor_limit: "sorted_wrt R xs \<Longrightarrow> sorted_wrt R (cursor_limit n xs)"
  by (simp add: cursor_limit_def sorted_wrt_take)

lemma cursor_limit_nonempty: "xs \<noteq> [] \<Longrightarrow> 0 < n \<Longrightarrow> cursor_limit n xs \<noteq> []"
  by (cases xs) (auto simp: cursor_limit_def nat_eq_iff2)

lemma mset_sort_rating_sales: "mset (sort_rating_sales ps) = mset ps"
  by (simp add: sort_rating_sales_def)

lemma set_sort_rating_sales: "set (sort_rating_sales ps) = set ps"
  by (simp add: sort_rating_sales_def)

lemma sorted_sort_rating_sales: "sorted_wrt ranked_before (sort_rating_sales ps)"
proof -
  have "sorted (map (\<lambda>p. (- averageRating p, - sales p)) (sort_rating_sales ps))"
    by (simp add: sort_rating_sales_def)
  then have "sorted_wrt (\<lambda>p q. (- averageRating p, - sales p) \<le> (- averageRating q, - sales q))
               (sort_rating_sales ps)"
    by (simp add: sorted_wrt_map)
  then show ?thesis
    by (rule sorted_wrt_mono_rel[rotated]) (auto simp: ranked_before_def less_eq_prod_def)
qed

lemma query_ok: "rejects db site = None \<Longrightarrow> query db site v = Inr v"
  by (simp add: query_def)

lemma query_rejected: "rejects db site = Some e \<Longrightarrow> query db site v = Inl e"
  by (simp add: query_def)

lemma query_cases: "query db site v = Inr w \<Longrightarrow> w = v \<and> rejects db site = None"
  by (auto simp: query_def split: option.splits)

subsection \<open>The seasonal scorer\<close>

lemma july_filter:
  "(status p = active
      \<and> ((\<exists>t \<in> set (tags p). t \<in> set (seasonalTags 7)) \<or> category p \<in> set (getSeasonalCategories 7)))
   = july_match p"
  by (auto simp: july_match_def july_tags_def july_categories_def seasonalTags_def
        getSeasonalCategories_def)

text \<open>
  C8. In July the Seasonal Scorer returns only active products with a tag among summer,
  outdoor, sports, vacation, swimwear or a category among Sports & Outdoors, Clothing &
  Fashion, Electronics; they are all such products ranked by rating descending, then sales
  descending, cut to the first \<open>n\<close> for a limit \<open>n > 0\<close>. The read of the products succeeds
  (a rejected read rejects the call).
\<close>

theorem getSeasonalRecommendations_july:
  "(rejects db Seasonal_products = None \<and> 0 < n \<longrightarrow>
      (\<exists>ranked. getSeasonalRecommendations db 7 n = Inr (take (nat n) ranked)
         \<and> mset ranked = mset (filter july_match (Product_docs db))
         \<and> sorted_wrt ranked_before ranked))
   \<and> (\<forall>out. getSeasonalRecommendations db 7 n = Inr out \<longrightarrow>
         (\<forall>p \<in> set out. p \<in> set (Product_docs db) \<and> status p = active
             \<and> (set (tags p) \<inter> july_tags \<noteq> {} \<or> category p \<in> july_categories))
         \<and> sorted_wrt ranked_before out
         \<and> (0 < n \<longrightarrow> int (length out) \<le> n))"
proof -
  let ?ranked = "sort_rating_sales (filter july_match (Product_docs db))"
  have def: "getSeasonalRecommendations db 7 n = query db Seasonal_products (cursor_limit n ?ranked)"
    by (simp add: getSeasonalRecommendations_def july_filter)
  have a: "\<exists>ranked. getSeasonalRecommendations db 7 n = Inr (take (nat n) ranked)
         \<and> mset ranked = mset (filter july_match (Product_docs db))
         \<and> sorted_wrt ranked_before ranked"
    if "rejects db Seasonal_products = None" "0 < n"
    using that by (intro exI[of _ ?ranked])
      (simp add: def query_ok cursor_limit_pos mset_sort_rating_sales sorted_sort_rating_sales)
  have b: "(\<forall>p \<in> set out. p \<in> set (Product_docs db) \<and> status p = active
             \<and> (set (tags p) \<inter> july_tags \<noteq> {} \<or> category p \<in> july_categories))
         \<and> sorted_wrt ranked_before out
         \<and> (0 < n \<longrightarrow> int (length out) \<le> n)"
    if "getSeasonalRecommendations db 7 n = Inr out" for out
  proof -
    from that have out: "out = cursor_limit n ?ranked"
      unfolding def by (blast dest: query_cases)
    have "set out \<subseteq> set (filter july_match (Product_docs db))"
      unfolding out using set_cursor_limit[of n ?ranked] by (simp add: set_sort_rating_sales)
    then have 1: "\<forall>p \<in> set out. p \<in> set (Product_docs db) \<and> status p = active
             \<and> (set (tags p) \<inter> july_tags \<noteq> {} \<or> category p \<in> july_categories)"
      by (auto simp: july_match_def)
    have 2: "sorted_wrt ranked_before out"
      unfolding out by (rule sorted_wrt_cursor_limit) (rule sorted_sort_rating_sales)
    have 3: "0 < n \<longrightarrow> int (length out) \<le> n"
      unfolding out by (auto simp: cursor_limit_pos)
    from 1 2 3 show ?thesis by blast
  qed
  from a b show ?thesis by blast
qed

text \<open>An instance: the example catalog in July with limit 2.\<close>

theorem getSeasonalRecommendations_july_witness:
  "rejects (reachable catalog) Seasonal_products = None
   \<and> getSeasonalRecommendations (reachable catalog) 7 2 = Inr [phone, novel]
   \<and> filter july_match catalog = [phone, tent, novel]
   \<and> list_all (\<lambda>p. p \<in> set catalog \<and> status p = active
                 \<and> (set (tags p) \<inter> july_tags \<noteq> {} \<or> category p \<in> july_categories)) [phone, novel]
   \<and> sorted_wrt ranked_before [phone, novel]
   \<and> int (length [phone, novel]) \<le> 2"
proof -
  have r: "rejects (reachable catalog) Seasonal_products = None"
    by (simp add: reachable_def)
  have e: "getSeasonalRecommendations (reachable catalog) 7 2 = Inr [phone, novel]"
    by code_simp
  have f: "filter july_match catalog = [phone, tent, novel]"
    by code_simp
  from getSeasonalRecommendations_july[of "reachable catalog" 2] e
  have "(\<forall>p \<in> set [phone, novel]. p \<in> set (Product_docs (reachable catalog)) \<and> status p = active
             \<and> (set (tags p) \<inter> july_tags \<noteq> {} \<or> category p \<in> july_categories))
         \<and> sorted_wrt ranked_before [phone, novel]
         \<and> ((0::int) < 2 \<longrightarrow> int (length [phone, novel]) \<le> 2)"
    by blast
  then have "list_all (\<lambda>p. p \<in> set catalog \<and> status p = active
                 \<and> (set (tags p) \<inter> july_tags \<noteq> {} \<or> category p \<in> july_categories)) [phone, novel]
     \<and> sorted_wrt ranked_before [phone, novel] \<and> int (length [phone, novel]) \<le> 2"
    by (simp add: list_all_iff reachable_def)
  with r e f show ?thesis by blast
qed

subsection \<open>The content scorer\<close>

lemma try_catch_empty_Inr: "try_catch_empty (Inr v) = Inr v"
  by (simp add: try_catch_empty_def)


lemma await_Inr: "await (Inr v) k = k v"
  by (simp add: await_def)

lemma await_Inl: "await (Inl e) k = Inl e"
  by (simp add: await_def)






text \<open>
  C6. Without a category signal the Content Scorer returns the cold-start fallback: all
  active products ranked by rating descending, then sales descending, cut to the first
  \<open>n\<close> (limit \<open>n > 0\<close>); the result is not empty when the catalog has an active product.
  The read of the products succeeds. A user with no paid orders, wishlist or cart items has
  such a snapshot: no categories, no brands, average price 0.
\<close>

theorem getContentBasedRecommendations_cold_start:
  "(categories prefs = [] \<and> rejects db Content_popular = None \<and> 0 < n \<longrightarrow>
      (\<exists>ranked. getContentBasedRecommendations db prefs n = Inr (map plain (take (nat n) ranked))
         \<and> mset ranked = mset (filter (\<lambda>p. status p = active) (Product_docs db))
         \<and> sorted_wrt ranked_before ranked)
      \<and> ((\<exists>p \<in> set (Product_docs db). status p = active) \<longrightarrow>
           getContentBasedRecommendations db prefs n \<noteq> Inr []))
   \<and> (wishlist_items u = [] \<and> cart_items u = [] \<longrightarrow>
        categories (getUserPreferences [] u) = [] \<and> brands (getUserPreferences [] u) = []
        \<and> avg (priceRange (getUserPreferences [] u)) = 0)"
proof -
  let ?actives = "filter (\<lambda>p. status p = active) (Product_docs db)"
  let ?ranked = "sort_rating_sales ?actives"
  have res: "getContentBasedRecommendations db prefs n = Inr (map plain (take (nat n) ?ranked))"
    if "categories prefs = []" "rejects db Content_popular = None" "0 < n"
    using that by (simp add: getContentBasedRecommendations_def content_body_def query_ok await_Inr
          try_catch_empty_Inr cursor_limit_pos)
  have nonempty: "getContentBasedRecommendations db prefs n \<noteq> Inr []"
    if h: "categories prefs = []" "rejects db Content_popular = None" "0 < n"
      and ex: "\<exists>p \<in> set (Product_docs db). status p = active"
  proof -
    from ex have "?actives \<noteq> []" by (auto simp: filter_empty_conv)
    then have "?ranked \<noteq> []"
      by (metis mset_sort_rating_sales mset_zero_iff)
    with h(3) have "take (nat n) ?ranked \<noteq> []" by (cases ?ranked) (auto simp: nat_eq_iff2)
    then show ?thesis using res[OF h] by simp
  qed
  have cold: "categories (getUserPreferences [] u) = [] \<and> brands (getUserPreferences [] u) = []
        \<and> avg (priceRange (getUserPreferences [] u)) = 0"
    if "wishlist_items u = []" "cart_items u = []"
    using that by (simp add: getUserPreferences_def preference_weights_def acc0_def Let_def
          rank_keys_def Object_keys_def)
  from res nonempty cold show ?thesis
    using mset_sort_rating_sales[of ?actives] sorted_sort_rating_sales[of ?actives] by blast
qed

text \<open>An instance: the example catalog and the snapshot of a user without history.\<close>

theorem getContentBasedRecommendations_cold_start_witness:
  "getContentBasedRecommendations (reachable catalog) cold_preferences 2 = Inr [plain kettle, plain phone]
   \<and> categories cold_preferences = []
   \<and> getUserPreferences [] no_basket = cold_preferences
   \<and> filter (\<lambda>p. status p = active) catalog = [phone, tent, novel, kettle]
   \<and> getContentBasedRecommendations (reachable catalog) cold_preferences 2 \<noteq> Inr []
   \<and> (\<exists>ranked. getContentBasedRecommendations (reachable catalog) cold_preferences 2
                  = Inr (map plain (take (nat 2) ranked))
         \<and> mset ranked = mset [phone, tent, novel, kettle]
         \<and> sorted_wrt ranked_before ranked)"
proof -
  have e: "getContentBasedRecommendations (reachable catalog) cold_preferences 2 = Inr [plain kettle, plain phone]"
    by code_simp
  have p: "getUserPreferences [] no_basket = cold_preferences"
    by code_simp
  have a: "filter (\<lambda>p. status p = active) catalog = [phone, tent, novel, kettle]"
    by code_simp
  have h: "categories cold_preferences = [] \<and> rejects (reachable catalog) Content_popular = None \<and> (0::int) < 2"
    by (simp add: cold_preferences_def reachable_def)
  have ex: "\<exists>p \<in> set (Product_docs (reachable catalog)). status p = active"
    by (simp add: reachable_def catalog_def phone_def)
  note t = getContentBasedRecommendations_cold_start[of cold_preferences "reachable catalog" 2 no_basket]
  from t h ex have ne: "getContentBasedRecommendations (reachable catalog) cold_preferences 2 \<noteq> Inr []"
    by blast
  from t h have "\<exists>ranked. getContentBasedRecommendations (reachable catalog) cold_preferences 2
                  = Inr (map plain (take (nat 2) ranked))
         \<and> mset ranked = mset (filter (\<lambda>p. status p = active) (Product_docs (reachable catalog)))
         \<and> sorted_wrt ranked_before ranked"
    by blast
  then have "\<exists>ranked. getContentBasedRecommendations (reachable catalog) cold_preferences 2
                  = Inr (map plain (take (nat 2) ranked))
         \<and> mset ranked = mset [phone, tent, novel, kettle]
         \<and> sorted_wrt ranked_before ranked"
    using a by (simp add: reachable_def)
  with e p a ne h show ?thesis by blast
qed

subsection \<open>The collaborative scorer: the purchase basis\<close>

lemma product_strings_Inr:
  "product_strings items = Inr ps \<Longrightarrow>
     ps = List.map_filter item_product items \<and> list_all (\<lambda>i. item_product i \<noteq> None) items"
  by (induction items arbitrary: ps)
     (auto simp: await_def List.map_filter_simps split: option.splits sum.splits)



lemma map_filter_append:
  "List.map_filter f (xs @ ys) = List.map_filter f xs @ List.map_filter f ys"
  by (simp add: List.map_filter_def)

lemma flatMap_product_strings_Inr:
  "flatMap_product_strings ords = Inr ps \<Longrightarrow>
     ps = List.map_filter item_product (concat (map orderItems ords))
     \<and> list_all (\<lambda>ord. list_all (\<lambda>i. item_product i \<noteq> None) (orderItems ord)) ords"
  by (induction ords arbitrary: ps)
     (auto simp: await_def List.map_filter_simps map_filter_append
           dest!: product_strings_Inr split: sum.splits)




lemma collaborative_body_unfold:
  "collaborative_body db userId n =
     await (query db Collab_orders (paid_orders_of db userId))
       (\<lambda>userOrders. await (flatMap_product_strings userOrders)
          (\<lambda>userProductIds.
             if userProductIds = [] then Inr []
             else
               await (map_ObjectId (Types_ObjectId db) userProductIds)
                 (\<lambda>inIds. await (Types_ObjectId db userId)
                 (\<lambda>selfId.
               await (query db Collab_similarUsers (similarUsers_pipeline (Order_docs db) selfId inIds))
                 (\<lambda>similarUsers. await (map_ObjectId (Types_ObjectId db) userProductIds)
                 (\<lambda>ninIds.
                  await (if n \<le> 0 then Inl MongoError
                         else query db Collab_recommended
                                (recommended_pipeline (Order_docs db) (map su_id similarUsers) ninIds n))
                    (\<lambda>recommendedProducts.
                       await (query db Collab_products
                                (filter (\<lambda>p. Some (pid p) \<in> set (map sp_id recommendedProducts) \<and> status p = active)
                                   (Product_docs db)))
                         (annotate recommendedProducts))))))))"
  by (simp add: collaborative_body_def paid_orders_of_def)

lemma getCollaborativeRecommendations_total:
  "\<exists>recs. getCollaborativeRecommendations db userId n = Inr recs"
  by (simp add: getCollaborativeRecommendations_def try_catch_empty_def split: sum.splits)


lemma collaborative_body_no_purchases:
  assumes "set (purchased_ids db userId) = {}"
  shows "collaborative_body db userId n = Inr [] \<or> (\<exists>e. collaborative_body db userId n = Inl e)"
proof (cases "rejects db Collab_orders")
  case (Some e)
  then show ?thesis by (simp add: collaborative_body_unfold query_rejected await_Inl)
next
  case None
  show ?thesis
  proof (cases "flatMap_product_strings (paid_orders_of db userId)")
    case (Inl e)
    with None show ?thesis by (simp add: collaborative_body_unfold query_ok await_Inr await_Inl)
  next
    case (Inr ps)
    then have "ps = purchased_ids db userId"
      by (auto simp: purchased_ids_def dest: flatMap_product_strings_Inr)
    with assms have "ps = []" by simp
    with None Inr show ?thesis by (simp add: collaborative_body_unfold query_ok await_Inr)
  qed
qed

text \<open>
  C7. The Collaborative Scorer never throws: it returns a list for every store, user and
  limit. For a user whose paid orders hold no product identifier the list is empty.
\<close>

theorem getCollaborativeRecommendations_no_purchases:
  "(\<exists>recs. getCollaborativeRecommendations db userId n = Inr recs)
   \<and> (set (purchased_ids db userId) = {} \<longrightarrow> getCollaborativeRecommendations db userId n = Inr [])"
proof -
  have "getCollaborativeRecommendations db userId n = Inr []" if "set (purchased_ids db userId) = {}"
    using collaborative_body_no_purchases[OF that, of n]
    by (auto simp: getCollaborativeRecommendations_def try_catch_empty_def)
  then show ?thesis using getCollaborativeRecommendations_total by blast
qed

text \<open>An instance: user 5 of the example shop has only an unpaid order.\<close>

theorem getCollaborativeRecommendations_no_purchases_witness:
  "purchased_ids shop 5 = []
   \<and> paid_orders_of shop 5 = []
   \<and> getCollaborativeRecommendations shop 5 10 = Inr []
   \<and> purchased_ids shop 1 = [1]"
proof -
  have p: "purchased_ids shop 5 = []" "paid_orders_of shop 5 = []" "purchased_ids shop 1 = [1]"
    by code_simp+
  then have "set (purchased_ids shop 5) = {}" by simp
  with getCollaborativeRecommendations_no_purchases[of shop 5 10]
  have "getCollaborativeRecommendations shop 5 10 = Inr []" by blast
  with p show ?thesis by blast
qed

subsection \<open>The request handler\<close>






subsection \<open>Malformed product references\<close>








subsection \<open>Aggregation stages\<close>



























end
